theory Spec2Isabelle
  imports Complex_Main
begin

section \<open>Text primitives of the monitor\<close>

text \<open>
  The monitor (\<^verbatim>\<open>src/config/monitor-api.py\<close>) reads text files and works on Python
  \<^verbatim>\<open>str\<close> values. Strings are modelled as \<^typ>\<open>string\<close>; the model covers ASCII text.
  Python integers are \<^typ>\<open>int\<close>. Python floats and the values held by gauges and
  counters are modelled by exact rationals: rounding is not part of the model.
\<close>

definition nl :: char where
  "nl = CHR 0x0A"

definition cr :: char where
  "cr = CHR 0x0D"

definition dq :: char where
  "dq = CHR 0x22"

definition sq :: char where
  "sq = CHR 0x27"

text \<open>Characters for which \<^verbatim>\<open>str.isspace\<close> holds (also the class \<^verbatim>\<open>\s\<close>), within ASCII.\<close>

definition is_space :: "char \<Rightarrow> bool" where
  "is_space c = (c \<in> set [CHR 0x09, CHR 0x0A, CHR 0x0B, CHR 0x0C, CHR 0x0D,
                             CHR 0x1C, CHR 0x1D, CHR 0x1E, CHR 0x1F, CHR 0x20])"

definition is_digit :: "char \<Rightarrow> bool" where
  "is_digit c = (c \<in> set ''0123456789'')"

definition lower_char :: "char \<Rightarrow> char" where
  "lower_char c =
     (case map_of (zip ''ABCDEFGHIJKLMNOPQRSTUVWXYZ'' ''abcdefghijklmnopqrstuvwxyz'') c of
        Some d \<Rightarrow> d
      | None \<Rightarrow> c)"

text \<open>\<^verbatim>\<open>s.lower()\<close>\<close>

definition lower :: "string \<Rightarrow> string" where
  "lower s = map lower_char s"

text \<open>\<^verbatim>\<open>s.startswith(p)\<close> and \<^verbatim>\<open>s.endswith(p)\<close>\<close>

fun startswith :: "string \<Rightarrow> string \<Rightarrow> bool" where
  "startswith s [] = True"
| "startswith [] (p # ps) = False"
| "startswith (x # xs) (p # ps) = (x = p \<and> startswith xs ps)"

definition endswith :: "string \<Rightarrow> string \<Rightarrow> bool" where
  "endswith s p = startswith (rev s) (rev p)"

text \<open>\<^verbatim>\<open>needle in hay\<close>\<close>

fun contains :: "string \<Rightarrow> string \<Rightarrow> bool" where
  "contains needle [] = (needle = [])"
| "contains needle (x # xs) = (startswith (x # xs) needle \<or> contains needle xs)"

text \<open>\<^verbatim>\<open>s.strip(chars)\<close> and \<^verbatim>\<open>s.strip()\<close>\<close>

definition strip_where :: "(char \<Rightarrow> bool) \<Rightarrow> string \<Rightarrow> string" where
  "strip_where P s = rev (dropWhile P (rev (dropWhile P s)))"

definition strip_chars :: "string \<Rightarrow> string \<Rightarrow> string" where
  "strip_chars cs s = strip_where (\<lambda>c. c \<in> set cs) s"

definition strip :: "string \<Rightarrow> string" where
  "strip s = strip_where is_space s"

text \<open>\<^verbatim>\<open>s.split(sep)\<close> for a one-character separator.\<close>

fun py_split :: "char \<Rightarrow> string \<Rightarrow> string list" where
  "py_split sep [] = [[]]"
| "py_split sep (c # cs) =
     (if c = sep then [] # py_split sep cs
      else (case py_split sep cs of
              [] \<Rightarrow> [[c]]
            | l # ls \<Rightarrow> (c # l) # ls))"

text \<open>\<^verbatim>\<open>s.split(sep, 1)\<close>, for a string that contains the separator.\<close>

definition split_once :: "char \<Rightarrow> string \<Rightarrow> string \<times> string" where
  "split_once sep s = (takeWhile (\<lambda>c. c \<noteq> sep) s, drop 1 (dropWhile (\<lambda>c. c \<noteq> sep) s))"

text \<open>List indexing with a non-negative index; \<open>None\<close> is an \<^verbatim>\<open>IndexError\<close>.\<close>

fun py_index :: "'a list \<Rightarrow> nat \<Rightarrow> 'a option" where
  "py_index [] n = None"
| "py_index (x # xs) 0 = Some x"
| "py_index (x # xs) (Suc n) = py_index xs n"

subsection \<open>Numbers and text\<close>

definition digit_char :: "int \<Rightarrow> char" where
  "digit_char d = ''0123456789'' ! nat (d mod 10)"

definition digit_val :: "char \<Rightarrow> int" where
  "digit_val c =
     (case map_of (zip ''0123456789'' [0, 1, 2, 3, 4, 5, 6, 7, 8, 9]) c of
        Some d \<Rightarrow> d
      | None \<Rightarrow> 0)"

text \<open>
  \<^verbatim>\<open>str(n)\<close> for an integer (\<open>str_digits\<close> for one that is not negative), and
  \<^verbatim>\<open>str(b).lower()\<close> for a boolean.
\<close>

function str_digits :: "int \<Rightarrow> string" where
  "str_digits n =
     (if n < 10 then [digit_char n] else str_digits (n div 10) @ [digit_char (n mod 10)])"
  by pat_completeness auto
termination
  by (relation "measure nat") auto

declare str_digits.simps [simp del]

definition str_int :: "int \<Rightarrow> string" where
  "str_int i = (if i < 0 then CHR ''-'' # str_digits (- i) else str_digits i)"

definition str_bool_lower :: "bool \<Rightarrow> string" where
  "str_bool_lower b = lower (if b then ''True'' else ''False'')"

text \<open>The value of a string of decimal digits.\<close>

definition dec_value :: "string \<Rightarrow> int" where
  "dec_value ds = foldl (\<lambda>a c. 10 * a + digit_val c) 0 ds"

text \<open>
  The digits of an integer literal: a digit, then digits each optionally preceded by one
  underscore.
\<close>

fun int_body :: "string \<Rightarrow> bool" where
  "int_body [] = False"
| "int_body [c] = is_digit c"
| "int_body (c # d # r) =
     (is_digit c \<and> (if d = CHR ''_'' then int_body r else int_body (d # r)))"

text \<open>
  \<^verbatim>\<open>int(s)\<close> for a string: surrounding whitespace is dropped, a sign is optional;
  \<open>None\<close> is a \<^verbatim>\<open>ValueError\<close>. The interpreter's optional limit on the number of
  digits is not modelled.
\<close>

definition py_int :: "string \<Rightarrow> int option" where
  "py_int s =
     (let t = strip s;
          neg = startswith t ''-'';
          body = (if startswith t ''-'' \<or> startswith t ''+'' then drop 1 t else t)
      in if int_body body
         then Some ((if neg then - 1 else 1) * dec_value (filter (\<lambda>c. c \<noteq> CHR ''_'') body))
         else None)"

text \<open>
  \<^verbatim>\<open>float(s)\<close> on the decimal literals \<^verbatim>\<open>digits\<close>, \<^verbatim>\<open>digits.\<close> and
  \<^verbatim>\<open>digits.digits\<close>, the texts the capture group \<^verbatim>\<open>(\d+\.?\d*)\<close> can hold, as the
  exact value of the literal. Any other text is outside this model and yields \<open>None\<close>.
\<close>

definition py_float :: "string \<Rightarrow> rat option" where
  "py_float s =
     (let ip = takeWhile is_digit s;
          rest = dropWhile is_digit s;
          fp = drop 1 rest
      in if ip \<noteq> [] \<and> (rest = [] \<or> (startswith rest ''.'' \<and> list_all is_digit fp))
         then Some (of_int (dec_value ip) + of_int (dec_value fp) / 10 ^ length fp)
         else None)"

subsection \<open>Regular expressions\<close>

text \<open>
  Every pattern of the monitor is a sequence of single-character atoms, each taken once,
  optionally (\<^verbatim>\<open>?\<close>), any number of times (\<^verbatim>\<open>*\<close>) or at least once (\<^verbatim>\<open>+\<close>),
  around one capture group. \<open>rmatch\<close> is the backtracking matcher of \<^verbatim>\<open>re\<close> on such a
  sequence, anchored at the start of its input: a quantified atom takes as many characters
  as it can and gives them back one at a time while the rest of the pattern fails.
  Its result is the text of group 1.
\<close>

datatype quant = One | Opt | Star | Plus

datatype item = Atom "char \<Rightarrow> bool" quant | GroupOpen | GroupClose

function rmatch :: "item list \<Rightarrow> string \<Rightarrow> string \<Rightarrow> string \<Rightarrow> string option" where
  "rmatch [] s g cap = Some cap"
| "rmatch (GroupOpen # its) s g cap = rmatch its s s cap"
| "rmatch (GroupClose # its) s g cap = rmatch its s g (take (length g - length s) g)"
| "rmatch (Atom p One # its) [] g cap = None"
| "rmatch (Atom p One # its) (x # xs) g cap = (if p x then rmatch its xs g cap else None)"
| "rmatch (Atom p Opt # its) [] g cap = rmatch its [] g cap"
| "rmatch (Atom p Opt # its) (x # xs) g cap =
     (if p x
      then (case rmatch its xs g cap of
              Some r \<Rightarrow> Some r
            | None \<Rightarrow> rmatch its (x # xs) g cap)
      else rmatch its (x # xs) g cap)"
| "rmatch (Atom p Star # its) [] g cap = rmatch its [] g cap"
| "rmatch (Atom p Star # its) (x # xs) g cap =
     (if p x
      then (case rmatch (Atom p Star # its) xs g cap of
              Some r \<Rightarrow> Some r
            | None \<Rightarrow> rmatch its (x # xs) g cap)
      else rmatch its (x # xs) g cap)"
| "rmatch (Atom p Plus # its) [] g cap = None"
| "rmatch (Atom p Plus # its) (x # xs) g cap =
     (if p x then rmatch (Atom p Star # its) xs g cap else None)"
  by pat_completeness auto
termination
  by (relation "measure (\<lambda>(its, s, g, cap). length its + length s)") auto

text \<open>\<^verbatim>\<open>re.search(pattern, s)\<close> followed by \<^verbatim>\<open>.group(1)\<close>: the leftmost match.\<close>

fun re_search :: "item list \<Rightarrow> string \<Rightarrow> string option" where
  "re_search its [] = rmatch its [] [] []"
| "re_search its (x # xs) =
     (case rmatch its (x # xs) [] [] of
        Some r \<Rightarrow> Some r
      | None \<Rightarrow> re_search its xs)"

text \<open>Literal text of a pattern, as it is and under \<^verbatim>\<open>re.IGNORECASE\<close>.\<close>

definition lit :: "string \<Rightarrow> item list" where
  "lit s = map (\<lambda>c. Atom (\<lambda>x. x = c) One) s"

definition lit_i :: "string \<Rightarrow> item list" where
  "lit_i s = map (\<lambda>c. Atom (\<lambda>x. lower_char x = lower_char c) One) s"

definition colon_or_space :: "char \<Rightarrow> bool" where
  "colon_or_space c = (c = CHR '':'' \<or> is_space c)"

subsection \<open>Files and loops\<close>

text \<open>
  A file as a request finds it: absent, present but not readable (the \<^verbatim>\<open>open\<close> or the
  read raises), or present with its text.
\<close>

datatype file_state = Missing | Unreadable | Content string

text \<open>Text mode translates \<^verbatim>\<open>\r\n\<close> and \<^verbatim>\<open>\r\<close> to \<^verbatim>\<open>\n\<close>.\<close>

fun universal_newlines :: "string \<Rightarrow> string" where
  "universal_newlines [] = []"
| "universal_newlines [c] = [if c = cr then nl else c]"
| "universal_newlines (c # d # ds) =
     (if c = cr \<and> d = nl then nl # universal_newlines ds
      else if c = cr then nl # universal_newlines (d # ds)
      else c # universal_newlines (d # ds))"

text \<open>The lines of a text, each with its line end.\<close>

fun split_lines :: "string \<Rightarrow> string list" where
  "split_lines [] = []"
| "split_lines (c # cs) =
     (if c = nl then [nl] # split_lines cs
      else (case split_lines cs of
              [] \<Rightarrow> [[c]]
            | l # ls \<Rightarrow> (c # l) # ls))"

text \<open>\<^verbatim>\<open>f.readlines()\<close>, and the lines \<^verbatim>\<open>for line in f\<close> yields.\<close>

definition readlines :: "string \<Rightarrow> string list" where
  "readlines text = split_lines (universal_newlines text)"

text \<open>\<^verbatim>\<open>lines[-100:]\<close>\<close>

definition last100 :: "'a list \<Rightarrow> 'a list" where
  "last100 xs = drop (length xs - 100) xs"

text \<open>
  A \<^verbatim>\<open>for\<close> loop inside a \<^verbatim>\<open>try\<close>: an iteration goes on to the next element, leaves
  the loop (\<^verbatim>\<open>break\<close>), or raises. The state is the dictionary the body mutates, so it
  survives a \<^verbatim>\<open>break\<close> and an exception as it was at that moment.
\<close>

datatype 'a ctl = Next 'a | Break 'a | Raised 'a

fun ctl_val :: "'a ctl \<Rightarrow> 'a" where
  "ctl_val (Next a) = a"
| "ctl_val (Break a) = a"
| "ctl_val (Raised a) = a"

fun is_break :: "'a ctl \<Rightarrow> bool" where
  "is_break (Break a) = True"
| "is_break (Next a) = False"
| "is_break (Raised a) = False"

fun for_loop :: "('l \<Rightarrow> 'a \<Rightarrow> 'a ctl) \<Rightarrow> 'l list \<Rightarrow> 'a \<Rightarrow> 'a ctl" where
  "for_loop body [] st = Next st"
| "for_loop body (x # xs) st =
     (case body x st of
        Next st' \<Rightarrow> for_loop body xs st'
      | Break st' \<Rightarrow> Break st'
      | Raised st' \<Rightarrow> Raised st')"


section \<open>The metrics registry\<close>

text \<open>
  The module-level gauges and counters, under the series names they are created with.
  A series with a label holds one value per label it has been used with. A fresh
  registry holds 0 in every series without a label.
\<close>

record metrics =
  inferno_service_up :: "string \<rightharpoonup> rat"
  inferno_service_restarts_total :: "string \<rightharpoonup> rat"
  inferno_ptp_clock_offset_ns :: rat
  inferno_ptp_synchronized :: rat
  inferno_packets_received_total :: rat
  inferno_packets_lost_total :: rat
  inferno_packet_loss_rate :: rat
  inferno_srt_connected :: rat
  inferno_srt_bitrate_kbps :: rat
  inferno_srt_rtt_ms :: rat
  inferno_srt_packet_loss_pct :: rat

definition fresh_metrics :: metrics where
  "fresh_metrics =
     \<lparr>inferno_service_up = Map.empty,
      inferno_service_restarts_total = Map.empty,
      inferno_ptp_clock_offset_ns = 0,
      inferno_ptp_synchronized = 0,
      inferno_packets_received_total = 0,
      inferno_packets_lost_total = 0,
      inferno_packet_loss_rate = 0,
      inferno_srt_connected = 0,
      inferno_srt_bitrate_kbps = 0,
      inferno_srt_rtt_ms = 0,
      inferno_srt_packet_loss_pct = 0\<rparr>"

text \<open>\<^verbatim>\<open>1 if b else 0\<close>\<close>

definition flag :: "bool \<Rightarrow> rat" where
  "flag b = (if b then 1 else 0)"

section \<open>The log tail parsers\<close>

text \<open>
  \<^verbatim>\<open>match = re.search(pattern, line)\<close>, then, if there is a match, the assignment of
  \<^verbatim>\<open>int(match.group(1))\<close> or \<^verbatim>\<open>float(match.group(1))\<close> to a key of the status.
\<close>

definition capture_int :: "item list \<Rightarrow> string \<Rightarrow> (int \<Rightarrow> 'a \<Rightarrow> 'a) \<Rightarrow> 'a \<Rightarrow> 'a ctl" where
  "capture_int pattern line assign st =
     (case re_search pattern line of
        None \<Rightarrow> Next st
      | Some g \<Rightarrow> (case py_int g of None \<Rightarrow> Raised st | Some n \<Rightarrow> Next (assign n st)))"

definition capture_float :: "item list \<Rightarrow> string \<Rightarrow> (rat \<Rightarrow> 'a \<Rightarrow> 'a) \<Rightarrow> 'a \<Rightarrow> 'a ctl" where
  "capture_float pattern line assign st =
     (case re_search pattern line of
        None \<Rightarrow> Next st
      | Some g \<Rightarrow> (case py_float g of None \<Rightarrow> Raised st | Some v \<Rightarrow> Next (assign v st)))"

text \<open>One statement after another: the second runs if the first neither left nor raised.\<close>

fun and_then :: "'a ctl \<Rightarrow> ('a \<Rightarrow> 'a ctl) \<Rightarrow> 'a ctl" where
  "and_then (Next a) f = f a"
| "and_then (Break a) f = Break a"
| "and_then (Raised a) f = Raised a"

subsection \<open>\<^verbatim>\<open>parse_statime_log\<close>\<close>

record ptp_status =
  synchronized :: bool
  clock_offset_ns :: int
  master_ip :: "string option"
  state :: string

definition ptp_default :: ptp_status where
  "ptp_default =
     \<lparr>synchronized = False, clock_offset_ns = 0, master_ip = None, state = ''unknown''\<rparr>"

text \<open>\<^verbatim>\<open>offset[:\s]+(-?\d+)\<close>\<close>

definition offset_re :: "item list" where
  "offset_re =
     lit ''offset'' @
     [Atom colon_or_space Plus, GroupOpen, Atom (\<lambda>c. c = CHR ''-'') Opt, Atom is_digit Plus,
      GroupClose]"

definition statime_state :: "string \<Rightarrow> ptp_status \<Rightarrow> ptp_status" where
  "statime_state line ps =
     (if contains ''state'' (lower line)
      then (if contains ''slave'' (lower line) \<or> contains ''listening'' (lower line)
            then ps\<lparr>state := ''slave''\<rparr>
            else if contains ''master'' (lower line) then ps\<lparr>state := ''master''\<rparr>
            else ps)
      else ps)"

text \<open>
  The body of the loop. The status and the registry are both changed by it, so the loop's
  state is the pair.
\<close>

definition statime_line :: "string \<Rightarrow> ptp_status \<times> metrics \<Rightarrow> (ptp_status \<times> metrics) ctl" where
  "statime_line line st =
     (case (if contains ''offset'' (lower line) then re_search offset_re line else None) of
        Some g \<Rightarrow>
          (case py_int g of
             None \<Rightarrow> Raised st
           | Some offset \<Rightarrow>
               Break ((fst st)\<lparr>clock_offset_ns := offset, synchronized := \<bar>offset\<bar> < 100000\<rparr>,
                      (snd st)\<lparr>inferno_ptp_clock_offset_ns := of_int offset,
                               inferno_ptp_synchronized := flag (\<bar>offset\<bar> < 100000)\<rparr>))
      | None \<Rightarrow> Next (statime_state line (fst st), snd st))"

definition statime_scan :: "string \<Rightarrow> metrics \<Rightarrow> (ptp_status \<times> metrics) ctl" where
  "statime_scan text m = for_loop statime_line (rev (last100 (readlines text))) (ptp_default, m)"

definition parse_statime_log :: "file_state \<Rightarrow> metrics \<Rightarrow> ptp_status \<times> metrics" where
  "parse_statime_log log_file m =
     (case log_file of
        Missing \<Rightarrow> (ptp_default, m)
      | Unreadable \<Rightarrow> (ptp_default, m)
      | Content text \<Rightarrow> ctl_val (statime_scan text m))"

subsection \<open>\<^verbatim>\<open>parse_inferno_log\<close>\<close>

record audio_status =
  rx_channels :: int
  tx_channels :: int
  sample_rate :: int
  packets_received :: int
  packets_lost :: int

definition audio_default :: audio_status where
  "audio_default =
     \<lparr>rx_channels = 0, tx_channels = 0, sample_rate = 0, packets_received = 0,
      packets_lost = 0\<rparr>"

text \<open>\<^verbatim>\<open>(\d+)\s*channels?\<close>\<close>

definition channels_re :: "item list" where
  "channels_re =
     [GroupOpen, Atom is_digit Plus, GroupClose, Atom is_space Star] @ lit ''channel'' @
     [Atom (\<lambda>c. c = CHR ''s'') Opt]"

text \<open>\<^verbatim>\<open>(\d+)\s*hz\<close>, \<^verbatim>\<open>received[:\s]+(\d+)\<close> and \<^verbatim>\<open>lost[:\s]+(\d+)\<close>, ignoring case.\<close>

definition hz_re :: "item list" where
  "hz_re = [GroupOpen, Atom is_digit Plus, GroupClose, Atom is_space Star] @ lit_i ''hz''"

definition received_re :: "item list" where
  "received_re =
     lit_i ''received'' @ [Atom colon_or_space Plus, GroupOpen, Atom is_digit Plus, GroupClose]"

definition lost_re :: "item list" where
  "lost_re =
     lit_i ''lost'' @ [Atom colon_or_space Plus, GroupOpen, Atom is_digit Plus, GroupClose]"

definition inferno_line :: "string \<Rightarrow> audio_status \<Rightarrow> audio_status ctl" where
  "inferno_line line st =
     and_then
       (and_then
          (if contains ''channels'' (lower line)
           then capture_int channels_re line (\<lambda>n a. a\<lparr>rx_channels := n\<rparr>) st
           else Next st)
          (\<lambda>st. if contains ''sample rate'' (lower line) \<or> contains ''hz'' (lower line)
                then capture_int hz_re line (\<lambda>n a. a\<lparr>sample_rate := n\<rparr>) st
                else Next st))
       (\<lambda>st. if contains ''packets'' (lower line)
             then and_then
                    (capture_int received_re line (\<lambda>n a. a\<lparr>packets_received := n\<rparr>) st)
                    (capture_int lost_re line (\<lambda>n a. a\<lparr>packets_lost := n\<rparr>))
             else Next st)"

definition parse_inferno_log :: "file_state \<Rightarrow> audio_status" where
  "parse_inferno_log log_file =
     (case log_file of
        Missing \<Rightarrow> audio_default
      | Unreadable \<Rightarrow> audio_default
      | Content text \<Rightarrow>
          ctl_val (for_loop inferno_line (rev (last100 (readlines text))) audio_default))"

subsection \<open>\<^verbatim>\<open>parse_srt_log\<close>\<close>

record srt_status =
  connected :: bool
  destination :: "string option"
  bitrate_kbps :: rat
  rtt_ms :: rat
  packet_loss_pct :: rat

definition srt_default :: srt_status where
  "srt_default =
     \<lparr>connected = False, destination = None, bitrate_kbps = 0, rtt_ms = 0,
      packet_loss_pct = 0\<rparr>"

text \<open>\<^verbatim>\<open>(srt://[^\s\'"]+)\<close>\<close>

definition srt_re :: "item list" where
  "srt_re =
     [GroupOpen] @ lit ''srt://'' @
     [Atom (\<lambda>c. \<not> is_space c \<and> c \<noteq> sq \<and> c \<noteq> dq) Plus, GroupClose]"

text \<open>\<^verbatim>\<open>(\d+\.?\d*)\s*kbits?/s\<close>, ignoring case, and \<^verbatim>\<open>(\d+\.?\d*)%\<close>.\<close>

definition kbits_re :: "item list" where
  "kbits_re =
     [GroupOpen, Atom is_digit Plus, Atom (\<lambda>c. c = CHR ''.'') Opt, Atom is_digit Star,
      GroupClose, Atom is_space Star] @
     lit_i ''kbit'' @ [Atom (\<lambda>x. lower_char x = CHR ''s'') Opt] @ lit_i ''/s''"

definition percent_re :: "item list" where
  "percent_re =
     [GroupOpen, Atom is_digit Plus, Atom (\<lambda>c. c = CHR ''.'') Opt, Atom is_digit Star,
      GroupClose, Atom (\<lambda>c. c = CHR ''%'') One]"

text \<open>The first block of the loop body: the destination and the connected flag.\<close>

definition srt_connection :: "string \<Rightarrow> srt_status \<Rightarrow> srt_status" where
  "srt_connection line st =
     (if contains ''srt://'' (lower line)
      then (case re_search srt_re line of
              None \<Rightarrow> st
            | Some uri \<Rightarrow>
                st\<lparr>destination := Some uri,
                   connected := \<not> contains ''error'' (lower line) \<and>
                                \<not> contains ''failed'' (lower line)\<rparr>)
      else st)"

definition srt_line :: "string \<Rightarrow> srt_status \<Rightarrow> srt_status ctl" where
  "srt_line line st =
     and_then
       (and_then
          (Next (srt_connection line st))
          (\<lambda>st. if contains ''bitrate'' (lower line) \<or> contains ''kbits/s'' (lower line)
                then capture_float kbits_re line (\<lambda>v s. s\<lparr>bitrate_kbps := v\<rparr>) st
                else Next st))
       (\<lambda>st. if contains ''loss'' (lower line)
             then capture_float percent_re line (\<lambda>v s. s\<lparr>packet_loss_pct := v\<rparr>) st
             else Next st)"

text \<open>The four \<^verbatim>\<open>set\<close> calls after the loop.\<close>

definition srt_publish :: "srt_status \<Rightarrow> metrics \<Rightarrow> metrics" where
  "srt_publish st m =
     m\<lparr>inferno_srt_connected := flag (connected st),
       inferno_srt_bitrate_kbps := bitrate_kbps st,
       inferno_srt_rtt_ms := rtt_ms st,
       inferno_srt_packet_loss_pct := packet_loss_pct st\<rparr>"

definition srt_scan :: "string \<Rightarrow> srt_status ctl" where
  "srt_scan text = for_loop srt_line (rev (last100 (readlines text))) srt_default"

definition parse_srt_log :: "file_state \<Rightarrow> metrics \<Rightarrow> srt_status \<times> metrics" where
  "parse_srt_log log_file m =
     (case log_file of
        Missing \<Rightarrow> (srt_default, m)
      | Unreadable \<Rightarrow> (srt_default, m)
      | Content text \<Rightarrow>
          (case srt_scan text of
             Raised st \<Rightarrow> (st, m)
           | Next st \<Rightarrow> (st, srt_publish st m)
           | Break st \<Rightarrow> (st, srt_publish st m)))"


section \<open>The config store\<close>

text \<open>
  An exception that leaves a request handler is answered with status 500 by the HTTP
  framework; \<open>Uncaught\<close> stands for it. \<open>HTTPException\<close> carries the status code and
  the detail the handler raises it with.
\<close>

datatype error = HTTPException nat string | Uncaught

type_synonym config = "string \<rightharpoonup> (string \<rightharpoonup> string)"

text \<open>
  The body of the loop of \<^verbatim>\<open>load_config\<close>, on the dictionary and the current section.
  A section name that is the empty string counts as no section.
\<close>

definition config_line :: "string \<Rightarrow> config \<times> string option \<Rightarrow> (config \<times> string option) ctl" where
  "config_line raw st =
     (let line = strip raw in
      if line = [] \<or> startswith line ''#'' then Next st
      else if startswith line ''['' \<and> endswith line '']''
      then Next ((fst st)(butlast (tl line) \<mapsto> Map.empty), Some (butlast (tl line)))
      else (case snd st of
              None \<Rightarrow> Next st
            | Some current_section \<Rightarrow>
                if contains ''='' line \<and> current_section \<noteq> []
                then (case fst st current_section of
                        None \<Rightarrow> Raised st
                      | Some entries \<Rightarrow>
                          Next ((fst st)(current_section \<mapsto>
                                   entries(strip (fst (split_once (CHR ''='') line)) \<mapsto>
                                           strip (snd (split_once (CHR ''='') line)))),
                                snd st))
                else Next st))"

text \<open>\<open>None\<close>: the call raised.\<close>

definition load_config :: "file_state \<Rightarrow> config option" where
  "load_config config_file =
     (case config_file of
        Missing \<Rightarrow> Some Map.empty
      | Unreadable \<Rightarrow> None
      | Content text \<Rightarrow>
          (case for_loop config_line (readlines text) (Map.empty, None) of
             Next st \<Rightarrow> Some (fst st)
           | Break st \<Rightarrow> Some (fst st)
           | Raised st \<Rightarrow> None))"

text \<open>\<^verbatim>\<open>config.get(section, {}).get(key)\<close>\<close>

definition config_get :: "config \<Rightarrow> string \<Rightarrow> string \<Rightarrow> string option" where
  "config_get config section key = (case config section of None \<Rightarrow> None | Some entries \<Rightarrow> entries key)"

definition config_get_or :: "config \<Rightarrow> string \<Rightarrow> string \<Rightarrow> string \<Rightarrow> string" where
  "config_get_or config section key dflt =
     (case config_get config section key of None \<Rightarrow> dflt | Some v \<Rightarrow> v)"

section \<open>The service prober\<close>





section \<open>The status views\<close>





record srt_response =
  resp_connected :: bool
  resp_destination :: string
  resp_mode :: string
  resp_bitrate_kbps :: rat
  resp_rtt_ms :: rat
  resp_packet_loss_pct :: rat
  resp_latency_ms :: "string option"

text \<open>
  \<^verbatim>\<open>get_srt_status\<close> parses the log, then loads the configuration. A \<open>resp_latency_ms\<close>
  of \<open>None\<close> is the default of that key, the integer 0.
\<close>

definition get_srt_status ::
  "file_state \<Rightarrow> file_state \<Rightarrow> metrics \<Rightarrow> (error + srt_response) \<times> metrics" where
  "get_srt_status srt_log config_file m =
     (let parsed = parse_srt_log srt_log m;
          srt_info = fst parsed
      in case load_config config_file of
           None \<Rightarrow> (Inl Uncaught, snd parsed)
         | Some config \<Rightarrow>
             (Inr \<lparr>resp_connected = connected srt_info,
                   resp_destination =
                     (case destination srt_info of
                        None \<Rightarrow>
                          ''srt://'' @ config_get_or config ''srt'' ''host'' ''unknown'' @ '':'' @
                          config_get_or config ''srt'' ''port'' ''0''
                      | Some d \<Rightarrow>
                          if d \<noteq> [] then d
                          else ''srt://'' @ config_get_or config ''srt'' ''host'' ''unknown'' @
                               '':'' @ config_get_or config ''srt'' ''port'' ''0''),
                   resp_mode = config_get_or config ''srt'' ''mode'' ''unknown'',
                   resp_bitrate_kbps = bitrate_kbps srt_info,
                   resp_rtt_ms = rtt_ms srt_info,
                   resp_packet_loss_pct = packet_loss_pct srt_info,
                   resp_latency_ms = config_get config ''srt'' ''latency_ms''\<rparr>,
              snd parsed))"





section \<open>Hardware audio output\<close>

text \<open>The request body \<^verbatim>\<open>AudioOutputConfig\<close>.\<close>

record audio_output_config =
  enabled :: bool
  device :: string
  stereo_pair :: int

text \<open>
  The dictionary \<^verbatim>\<open>write_audio_output_config\<close> is called with: the three keys above,
  and \<^verbatim>\<open>rx_channels\<close> if it is there.
\<close>

record routing_dict = audio_output_config +
  rx_channels_key :: "int option"

text \<open>The dictionary \<^verbatim>\<open>read_audio_output_config\<close> returns.\<close>

record routing_config = audio_output_config +
  channel_l :: int
  channel_r :: int
  config_rx_channels :: int

definition routing_default :: routing_config where
  "routing_default =
     \<lparr>enabled = False, device = ''auto'', stereo_pair = 1, channel_l = 0, channel_r = 1,
      config_rx_channels = 2\<rparr>"

text \<open>\<^verbatim>\<open>line.split('=')[1].strip('"')\<close>\<close>

definition field_value :: "string \<Rightarrow> string option" where
  "field_value line = map_option (strip_chars [dq]) (py_index (py_split (CHR ''='') line) 1)"

definition text_field ::
  "string \<Rightarrow> (string \<Rightarrow> routing_config \<Rightarrow> routing_config) \<Rightarrow> routing_config \<Rightarrow> routing_config ctl" where
  "text_field line assign config =
     (case field_value line of None \<Rightarrow> Raised config | Some v \<Rightarrow> Next (assign v config))"

definition int_field ::
  "string \<Rightarrow> (int \<Rightarrow> routing_config \<Rightarrow> routing_config) \<Rightarrow> routing_config \<Rightarrow> routing_config ctl" where
  "int_field line assign config =
     (case field_value line of
        None \<Rightarrow> Raised config
      | Some v \<Rightarrow> (case py_int v of None \<Rightarrow> Raised config | Some n \<Rightarrow> Next (assign n config)))"

definition routing_line :: "string \<Rightarrow> routing_config \<Rightarrow> routing_config ctl" where
  "routing_line raw config =
     (let line = strip raw in
      if startswith line ''ENABLED=''
      then text_field line (\<lambda>v c. c\<lparr>enabled := (lower v = ''true'')\<rparr>) config
      else if startswith line ''DEVICE=''
      then text_field line (\<lambda>v c. c\<lparr>device := v\<rparr>) config
      else if startswith line ''STEREO_PAIR=''
      then int_field line (\<lambda>n c. c\<lparr>stereo_pair := n\<rparr>) config
      else if startswith line ''CHANNEL_L=''
      then int_field line (\<lambda>n c. c\<lparr>channel_l := n\<rparr>) config
      else if startswith line ''CHANNEL_R=''
      then int_field line (\<lambda>n c. c\<lparr>channel_r := n\<rparr>) config
      else if startswith line ''RX_CHANNELS=''
      then int_field line (\<lambda>n c. c\<lparr>config_rx_channels := n\<rparr>) config
      else Next config)"

definition read_audio_output_config :: "file_state \<Rightarrow> routing_config" where
  "read_audio_output_config audio_out_config =
     (case audio_out_config of
        Missing \<Rightarrow> routing_default
      | Unreadable \<Rightarrow> routing_default
      | Content text \<Rightarrow> ctl_val (for_loop routing_line (readlines text) routing_default))"

text \<open>The text \<^verbatim>\<open>KEY="value"\<close>, and the line it makes with its line end.\<close>

definition kv_text :: "string \<Rightarrow> string \<Rightarrow> string" where
  "kv_text key v = key @ ''='' @ [dq] @ v @ [dq]"

definition kv_line :: "string \<Rightarrow> string \<Rightarrow> string" where
  "kv_line key v = kv_text key v @ [nl]"

text \<open>The text the eight \<^verbatim>\<open>f.write\<close> calls produce.\<close>

definition routing_text :: "routing_dict \<Rightarrow> string" where
  "routing_text config =
     (let left = (stereo_pair config - 1) * 2;
          right = (stereo_pair config - 1) * 2 + 1
      in ''# Hardware audio output configuration'' @ [nl] @
         ''# This file can be modified via API or manually'' @ [nl] @
         kv_line ''ENABLED'' (str_bool_lower (enabled config)) @
         kv_line ''DEVICE'' (device config) @
         kv_line ''STEREO_PAIR'' (str_int (stereo_pair config)) @
         kv_line ''CHANNEL_L'' (str_int left) @
         kv_line ''CHANNEL_R'' (str_int right) @
         kv_line ''RX_CHANNELS''
           (str_int (case rx_channels_key config of None \<Rightarrow> 2 | Some n \<Rightarrow> n)))"

text \<open>
  Writing succeeds or raises as the file system lets it (\<open>writable\<close>); a write that raises
  is taken to leave the file as it was. The result is the returned flag and the file.
\<close>

definition write_audio_output_config :: "bool \<Rightarrow> routing_dict \<Rightarrow> file_state \<Rightarrow> bool \<times> file_state" where
  "write_audio_output_config writable config audio_out_config =
     (if writable then (True, Content (routing_text config)) else (False, audio_out_config))"

text \<open>
  What a handler can change outside the registry: the routing file, and the service-control
  commands it has issued, in order. How a command ends is a parameter.
\<close>

record world =
  audio_out_config_file :: file_state
  systemctl_calls :: "string list list"

datatype run_result = Completed | CalledProcessError string | TimeoutExpired | OtherException

record output_response =
  success :: bool
  message :: string
  resp_enabled :: bool
  resp_device :: string
  resp_stereo_pair :: int
  resp_channels :: string

text \<open>
  \<^verbatim>\<open>int(main_config.get("inferno", {}).get("rx_channels", 2))\<close>; \<open>None\<close> is the
  \<^verbatim>\<open>ValueError\<close> of a value that is not an integer.
\<close>

definition main_rx_channels :: "config \<Rightarrow> int option" where
  "main_rx_channels main_config =
     (case config_get main_config ''inferno'' ''rx_channels'' of
        None \<Rightarrow> Some 2
      | Some v \<Rightarrow> py_int v)"

definition set_audio_output ::
  "file_state \<Rightarrow> bool \<Rightarrow> (string list \<Rightarrow> run_result) \<Rightarrow> audio_output_config \<Rightarrow> world \<Rightarrow>
   (error + output_response) \<times> world" where
  "set_audio_output config_file writable run audio_config w =
     (if device audio_config \<notin> set [''hdmi'', ''headphones'', ''auto'']
      then (Inl (HTTPException 400
                   (''Device must be '' @ [sq] @ ''hdmi'' @ [sq] @ '', '' @ [sq] @ ''headphones'' @
                    [sq] @ '', or '' @ [sq] @ ''auto'' @ [sq])), w)
      else if stereo_pair audio_config < 1
      then (Inl (HTTPException 400 ''Stereo pair must be >= 1''), w)
      else
        (case load_config config_file of
           None \<Rightarrow> (Inl Uncaught, w)
         | Some main_config \<Rightarrow>
             (case main_rx_channels main_config of
                None \<Rightarrow> (Inl Uncaught, w)
              | Some rx \<Rightarrow>
                  if stereo_pair audio_config > (rx + 1) div 2
                  then (Inl (HTTPException 400
                               (''Stereo pair '' @ str_int (stereo_pair audio_config) @
                                '' exceeds available pairs (max: '' @
                                str_int ((rx + 1) div 2) @ '' for '' @
                                str_int rx @ '' channels)'')), w)
                  else
                    (let written =
                           write_audio_output_config writable
                             \<lparr>enabled = enabled audio_config, device = device audio_config,
                              stereo_pair = stereo_pair audio_config,
                              rx_channels_key = Some rx\<rparr>
                             (audio_out_config_file w);
                         w1 = w\<lparr>audio_out_config_file := snd written\<rparr>;
                         command = [''systemctl'',
                                    (if enabled audio_config then ''restart'' else ''stop''),
                                    ''inferno-audio-out.service''];
                         w2 = w1\<lparr>systemctl_calls := systemctl_calls w1 @ [command]\<rparr>
                     in if \<not> fst written
                        then (Inl (HTTPException 500 ''Failed to write configuration''), w1)
                        else (case run command of
                                Completed \<Rightarrow>
                                  (Inr \<lparr>success = True,
                                        message = ''Audio output configuration updated'',
                                        resp_enabled = enabled audio_config,
                                        resp_device = device audio_config,
                                        resp_stereo_pair = stereo_pair audio_config,
                                        resp_channels =
                                          str_int ((stereo_pair audio_config - 1) * 2) @ ''-'' @
                                          str_int ((stereo_pair audio_config - 1) * 2 + 1)\<rparr>,
                                   w2)
                              | CalledProcessError e \<Rightarrow>
                                  (Inl (HTTPException 500 (''Failed to control service: '' @ e)), w2)
                              | TimeoutExpired \<Rightarrow>
                                  (Inl (HTTPException 500 ''Service control timeout''), w2)
                              | OtherException \<Rightarrow> (Inl Uncaught, w2))))))"


section \<open>Properties of the log tail parsers\<close>

subsection \<open>The synchronized flag\<close>

lemma statime_line_Break:
  "statime_line line st = Break (ps, m') \<Longrightarrow>
     synchronized ps = (\<bar>clock_offset_ns ps\<bar> < 100000)"
  by (auto simp: statime_line_def split: option.splits if_splits)

lemma statime_loop_Break:
  "for_loop statime_line ls st = Break (ps, m') \<Longrightarrow>
     synchronized ps = (\<bar>clock_offset_ns ps\<bar> < 100000)"
proof (induction ls arbitrary: st)
  case Nil
  then show ?case by simp
next
  case (Cons l ls)
  show ?case
  proof (cases "statime_line l st")
    case (Next st')
    with Cons.prems have "for_loop statime_line ls st' = Break (ps, m')" by simp
    then show ?thesis by (rule Cons.IH)
  next
    case (Break st')
    with Cons.prems have "statime_line l st = Break (ps, m')" by simp
    then show ?thesis by (rule statime_line_Break)
  next
    case (Raised st')
    with Cons.prems show ?thesis by simp
  qed
qed

text \<open>
  Claim C4. The scan of the clock-sync log leaves its loop by \<^verbatim>\<open>break\<close> exactly when it
  has extracted an offset. Whenever it does, the synchronized flag of the returned status
  is true if and only if the absolute value of the returned offset is strictly below
  100000.
\<close>

theorem synchronized_iff_offset_below_threshold:
  assumes "is_break (statime_scan logtext m)"
  shows "synchronized (fst (parse_statime_log (Content logtext) m)) =
           (\<bar>clock_offset_ns (fst (parse_statime_log (Content logtext) m))\<bar> < 100000)"
proof -
  from assms obtain ps m' where found: "statime_scan logtext m = Break (ps, m')"
    by (cases "statime_scan logtext m") auto
  then have
    "for_loop statime_line (rev (last100 (readlines logtext))) (ptp_default, m) = Break (ps, m')"
    by (simp add: statime_scan_def)
  then have "synchronized ps = (\<bar>clock_offset_ns ps\<bar> < 100000)"
    by (rule statime_loop_Break)
  with found show ?thesis by (simp add: parse_statime_log_def)
qed

lemma scan_offset_99999: "is_break (statime_scan (''offset: 99999'' @ [nl]) fresh_metrics)"
  by code_simp

lemma scan_offset_100000: "is_break (statime_scan (''offset: 100000'' @ [nl]) fresh_metrics)"
  by code_simp

lemma parsed_offset_99999:
  "clock_offset_ns (fst (parse_statime_log (Content (''offset: 99999'' @ [nl])) fresh_metrics)) =
     99999"
  by code_simp

lemma parsed_offset_100000:
  "clock_offset_ns (fst (parse_statime_log (Content (''offset: 100000'' @ [nl])) fresh_metrics)) =
     100000"
  by code_simp

text \<open>The boundary: an offset of 99999 is synchronized, an offset of 100000 is not.\<close>

theorem synchronized_threshold_boundary:
  "is_break (statime_scan (''offset: 99999'' @ [nl]) fresh_metrics) \<and>
   clock_offset_ns (fst (parse_statime_log (Content (''offset: 99999'' @ [nl])) fresh_metrics)) =
     99999 \<and>
   synchronized (fst (parse_statime_log (Content (''offset: 99999'' @ [nl])) fresh_metrics)) \<and>
   is_break (statime_scan (''offset: 100000'' @ [nl]) fresh_metrics) \<and>
   clock_offset_ns (fst (parse_statime_log (Content (''offset: 100000'' @ [nl])) fresh_metrics)) =
     100000 \<and>
   \<not> synchronized (fst (parse_statime_log (Content (''offset: 100000'' @ [nl])) fresh_metrics))"
  using synchronized_iff_offset_below_threshold [OF scan_offset_99999]
    synchronized_iff_offset_below_threshold [OF scan_offset_100000]
    scan_offset_99999 scan_offset_100000 parsed_offset_99999 parsed_offset_100000
  by simp

subsection \<open>A missing or unreadable log\<close>


subsection \<open>Determinism\<close>

lemma statime_line_Next:
  "statime_line line (ps, m) = Next a \<Longrightarrow> statime_line line (ps, m') = Next (fst a, m')"
  by (auto simp: statime_line_def split: option.splits if_splits)

lemma statime_line_Break_fst:
  "statime_line line (ps, m) = Break a \<Longrightarrow>
     \<exists>b. statime_line line (ps, m') = Break b \<and> fst b = fst a"
  by (auto simp: statime_line_def split: option.splits if_splits)

lemma statime_line_Raised:
  "statime_line line (ps, m) = Raised a \<Longrightarrow>
     statime_line line (ps, m') = Raised (ps, m') \<and> fst a = ps"
  by (auto simp: statime_line_def split: option.splits if_splits)

lemma statime_loop_registry_free:
  "fst (ctl_val (for_loop statime_line ls (ps, m))) =
   fst (ctl_val (for_loop statime_line ls (ps, m')))"
proof (induction ls arbitrary: ps m m')
  case Nil
  show ?case by simp
next
  case (Cons l ls)
  show ?case
  proof (cases "statime_line l (ps, m)")
    case (Next a)
    then have other: "statime_line l (ps, m') = Next (fst a, m')"
      by (rule statime_line_Next)
    have "for_loop statime_line (l # ls) (ps, m) = for_loop statime_line ls (fst a, snd a)"
      using Next by simp
    moreover have "for_loop statime_line (l # ls) (ps, m') = for_loop statime_line ls (fst a, m')"
      using other by simp
    ultimately show ?thesis using Cons.IH [of "fst a" "snd a" m'] by simp
  next
    case (Break a)
    then obtain b where "statime_line l (ps, m') = Break b" "fst b = fst a"
      using statime_line_Break_fst by blast
    with Break show ?thesis by simp
  next
    case (Raised a)
    then have "statime_line l (ps, m') = Raised (ps, m') \<and> fst a = ps"
      by (rule statime_line_Raised)
    with Raised show ?thesis by simp
  qed
qed

lemma parse_statime_registry_free:
  "fst (parse_statime_log f m) = fst (parse_statime_log f m')"
  by (cases f) (simp_all add: parse_statime_log_def statime_scan_def statime_loop_registry_free)

lemma parse_srt_registry_free:
  "fst (parse_srt_log f m) = fst (parse_srt_log f m')"
  by (cases f) (simp_all add: parse_srt_log_def split: ctl.splits)

text \<open>
  Claim C9. The record a parser returns is a function of the content of its log alone.
  The registry is the only state that lives from one call to the next; the audio parser
  does not touch it, and the record returned by the clock-sync parser and by the stream
  parser is the same whatever the registry holds. In particular a second run on the
  unchanged log, started from the registry the first run left, returns the record of the
  first run.
\<close>

theorem parsers_deterministic:
  "fst (parse_statime_log f m) = fst (parse_statime_log f m') \<and>
   fst (parse_srt_log f m) = fst (parse_srt_log f m') \<and>
   fst (parse_statime_log f (snd (parse_statime_log f m))) = fst (parse_statime_log f m) \<and>
   fst (parse_srt_log f (snd (parse_srt_log f m))) = fst (parse_srt_log f m)"
  using parse_statime_registry_free parse_srt_registry_free by blast

subsection \<open>The round-trip time\<close>

lemma srt_line_keeps:
  "connected (ctl_val (srt_line line st)) = connected (srt_connection line st) \<and>
   destination (ctl_val (srt_line line st)) = destination (srt_connection line st) \<and>
   rtt_ms (ctl_val (srt_line line st)) = rtt_ms st"
  by (simp add: srt_line_def capture_float_def srt_connection_def split: option.splits)

lemma srt_loop_rtt: "rtt_ms (ctl_val (for_loop srt_line ls st)) = rtt_ms st"
proof (induction ls arbitrary: st)
  case Nil
  show ?case by simp
next
  case (Cons l ls)
  have step: "rtt_ms (ctl_val (srt_line l st)) = rtt_ms st" by (simp add: srt_line_keeps)
  show ?case
  proof (cases "srt_line l st")
    case (Next a)
    with step Cons.IH [of a] show ?thesis by simp
  next
    case (Break a)
    with step show ?thesis by simp
  next
    case (Raised a)
    with step show ?thesis by simp
  qed
qed

lemma srt_scan_rtt: "rtt_ms (ctl_val (srt_scan logtext)) = 0"
  by (simp add: srt_scan_def srt_loop_rtt srt_default_def)

text \<open>
  Claim C10. Whatever the stream log holds, the record returned by \<^verbatim>\<open>parse_srt_log\<close>
  has a round-trip time of 0. The gauge of the round-trip time is 0 after the call or is
  left as it was, and the stream view, when it answers, reports 0.
\<close>

theorem rtt_always_zero:
  "rtt_ms (fst (parse_srt_log f m)) = 0 \<and>
   inferno_srt_rtt_ms (snd (parse_srt_log f m)) \<in> {0, inferno_srt_rtt_ms m} \<and>
   map_sum id resp_rtt_ms (fst (get_srt_status f config_file m)) \<in> {Inl Uncaught, Inr 0}"
proof -
  have record_rtt: "rtt_ms (fst (parse_srt_log f m)) = 0"
  proof (cases f)
    case (Content t)
    with srt_scan_rtt [of t] show ?thesis
      by (cases "srt_scan t") (simp_all add: parse_srt_log_def)
  qed (simp_all add: parse_srt_log_def srt_default_def)
  have gauge: "inferno_srt_rtt_ms (snd (parse_srt_log f m)) \<in> {0, inferno_srt_rtt_ms m}"
  proof (cases f)
    case (Content t)
    with srt_scan_rtt [of t] show ?thesis
      by (cases "srt_scan t") (simp_all add: parse_srt_log_def srt_publish_def)
  qed (simp_all add: parse_srt_log_def)
  have response:
    "map_sum id resp_rtt_ms (fst (get_srt_status f config_file m)) \<in> {Inl Uncaught, Inr 0}"
    using record_rtt by (simp add: get_srt_status_def Let_def split: option.splits)
  from record_rtt gauge response show ?thesis by simp
qed

subsection \<open>The connected flag\<close>

lemma startswith_lower: "startswith s p \<Longrightarrow> startswith (lower s) (lower p)"
  by (induction s p rule: startswith.induct) (auto simp: lower_def)

lemma contains_lower: "contains p s \<Longrightarrow> contains (lower p) (lower s)"
proof (induction s)
  case Nil
  then show ?case by (simp add: lower_def)
next
  case (Cons x xs)
  then show ?case using startswith_lower [of "x # xs" p] by (auto simp: lower_def)
qed

lemma lit_Nil [simp]: "lit [] = []"
  by (simp add: lit_def)

lemma rmatch_lit_Cons [simp]:
  "rmatch (lit (c # cs) @ its) s g cap =
     (case s of [] \<Rightarrow> None | x # xs \<Rightarrow> if x = c then rmatch (lit cs @ its) xs g cap else None)"
  by (cases s) (simp_all add: lit_def)

lemma rmatch_srt_prefix: "rmatch srt_re s g cap = Some u \<Longrightarrow> startswith s ''srt://''"
  by (auto simp: srt_re_def split: list.splits if_splits)

lemma re_search_srt_contains: "re_search srt_re s = Some u \<Longrightarrow> contains ''srt://'' s"
proof (induction s)
  case Nil
  then show ?case by (simp add: srt_re_def)
next
  case (Cons x xs)
  show ?case
  proof (cases "rmatch srt_re (x # xs) [] []")
    case None
    with Cons show ?thesis by simp
  next
    case (Some r)
    then have "startswith (x # xs) ''srt://''" by (rule rmatch_srt_prefix)
    then show ?thesis by simp
  qed
qed

text \<open>
  Claim C8. A line of the stream log holds an \<^verbatim>\<open>srt://\<close> URI when the pattern
  \<^verbatim>\<open>(srt://[^\s\'"]+)\<close> finds one in it. For such a line, and whatever the status was
  before it, the connected flag after the line is true unless the line itself, in lower
  case, contains \<^verbatim>\<open>error\<close> or \<^verbatim>\<open>failed\<close>; the destination is the URI found.
\<close>

theorem connected_decided_by_line:
  assumes "re_search srt_re line = Some uri"
  shows "connected (ctl_val (srt_line line st)) =
           (\<not> contains ''error'' (lower line) \<and> \<not> contains ''failed'' (lower line)) \<and>
         destination (ctl_val (srt_line line st)) = Some uri"
proof -
  from assms have "contains ''srt://'' line" by (rule re_search_srt_contains)
  then have "contains (lower ''srt://'') (lower line)" by (rule contains_lower)
  then have "contains ''srt://'' (lower line)" by (simp add: lower_def lower_char_def)
  with assms show ?thesis by (simp add: srt_line_keeps srt_connection_def)
qed

lemma uri_of_error_line:
  "re_search srt_re (''Connection to srt://10.0.0.5:9000 Error: timed out'' @ [nl]) =
     Some ''srt://10.0.0.5:9000''"
  by code_simp

lemma error_in_error_line:
  "contains ''error'' (lower (''Connection to srt://10.0.0.5:9000 Error: timed out'' @ [nl]))"
  by code_simp

text \<open>A line with a URI and the word \<^verbatim>\<open>Error\<close>: not connected.\<close>

theorem connected_false_on_error_line:
  "re_search srt_re (''Connection to srt://10.0.0.5:9000 Error: timed out'' @ [nl]) =
     Some ''srt://10.0.0.5:9000'' \<and>
   \<not> connected (ctl_val (srt_line (''Connection to srt://10.0.0.5:9000 Error: timed out'' @ [nl])
                    (srt_default\<lparr>connected := True\<rparr>))) \<and>
   destination (ctl_val (srt_line (''Connection to srt://10.0.0.5:9000 Error: timed out'' @ [nl])
                    (srt_default\<lparr>connected := True\<rparr>))) = Some ''srt://10.0.0.5:9000''"
  using connected_decided_by_line [OF uri_of_error_line] uri_of_error_line error_in_error_line
  by simp

subsection \<open>Which of several matching lines is kept\<close>

lemma inferno_two_lines:
  "rx_channels (parse_inferno_log (Content (''8 channels'' @ [nl] @ ''2 channels'' @ [nl]))) = 8"
  by code_simp

lemma srt_two_lines:
  "destination (fst (parse_srt_log (Content (''srt://old:1'' @ [nl] @ ''srt://new:2'' @ [nl]))
                      fresh_metrics)) = Some ''srt://old:1''"
  by code_simp

lemma statime_two_lines:
  "state (fst (parse_statime_log (Content (''state master'' @ [nl] @ ''state slave'' @ [nl]))
                fresh_metrics)) = ''master''"
  by code_simp

text \<open>
  Claim C1, which does not hold for the code. With two matching lines in the tail, the
  audio parser and the stream parser return the value of the older line, the first in the
  file, and so does the clock-sync parser for the state: the body of their loops assigns
  at every matching line of the reverse scan, so the last line scanned, the oldest, is
  the one kept.
\<close>

theorem older_match_replaces_newer:
  "rx_channels (parse_inferno_log (Content (''8 channels'' @ [nl] @ ''2 channels'' @ [nl]))) = 8 \<and>
   destination (fst (parse_srt_log (Content (''srt://old:1'' @ [nl] @ ''srt://new:2'' @ [nl]))
                      fresh_metrics)) = Some ''srt://old:1'' \<and>
   state (fst (parse_statime_log (Content (''state master'' @ [nl] @ ''state slave'' @ [nl]))
                fresh_metrics)) = ''master''"
  using inferno_two_lines srt_two_lines statime_two_lines by simp


section \<open>Properties of the network view\<close>








section \<open>Properties of the audio output controller\<close>

subsection \<open>Validation comes before persistence\<close>

lemma max_pairs_ceiling: "(rx + 1) div 2 = \<lceil>(of_int rx :: rat) / 2\<rceil>"
proof -
  have "\<lceil>(of_int rx :: rat) / of_int 2\<rceil> = - (- rx div 2)" by (rule ceiling_divide_eq_div)
  also have "\<dots> = (rx + 1) div 2" by presburger
  finally show ?thesis by simp
qed

text \<open>
  Claim C7. Take a request whose device is none of \<^verbatim>\<open>hdmi\<close>, \<^verbatim>\<open>headphones\<close> and
  \<^verbatim>\<open>auto\<close>, or whose stereo pair exceeds the ceiling of half the number of receive
  channels that the main configuration file gives at the time of the request. The handler
  ends with an \<^verbatim>\<open>HTTPException\<close> of status 400 and leaves the world as it was: the
  routing file is not written and no service-control command is issued.
\<close>

theorem invalid_request_rejected_before_persistence:
  assumes "device req \<notin> {''hdmi'', ''headphones'', ''auto''} \<or>
           (Option.bind (load_config config_file) main_rx_channels = Some rx \<and>
            stereo_pair req > \<lceil>(of_int rx :: rat) / 2\<rceil>)"
  shows "\<exists>detail. set_audio_output config_file writable run req w =
                     (Inl (HTTPException 400 detail), w)"
proof (cases "device req \<notin> {''hdmi'', ''headphones'', ''auto''}")
  case True
  then show ?thesis by (simp add: set_audio_output_def)
next
  case False
  with assms obtain main_config where
    cfg: "load_config config_file = Some main_config" "main_rx_channels main_config = Some rx"
    and pair: "stereo_pair req > (rx + 1) div 2"
    by (auto simp: max_pairs_ceiling split: Option.bind_splits)
  show ?thesis
  proof (cases "stereo_pair req < 1")
    case True
    with False show ?thesis by (simp add: set_audio_output_def)
  next
    case ge: False
    with False cfg pair show ?thesis by (simp add: set_audio_output_def)
  qed
qed

lemma four_rx_channels:
  "Option.bind (load_config (Content (''[inferno]'' @ [nl] @ ''rx_channels = 4'' @ [nl])))
     main_rx_channels = Some 4"
  by code_simp

text \<open>
  An unknown device, and the third stereo pair when the configuration gives four receive
  channels: both rejected with status 400, nothing written, nothing run.
\<close>

theorem invalid_requests_rejected:
  "(\<exists>detail.
      set_audio_output Missing True (\<lambda>c. Completed)
        \<lparr>enabled = True, device = ''spdif'', stereo_pair = 1\<rparr>
        \<lparr>audio_out_config_file = Missing, systemctl_calls = []\<rparr> =
      (Inl (HTTPException 400 detail), \<lparr>audio_out_config_file = Missing, systemctl_calls = []\<rparr>)) \<and>
   Option.bind (load_config (Content (''[inferno]'' @ [nl] @ ''rx_channels = 4'' @ [nl])))
     main_rx_channels = Some 4 \<and>
   (\<exists>detail.
      set_audio_output (Content (''[inferno]'' @ [nl] @ ''rx_channels = 4'' @ [nl])) True
        (\<lambda>c. Completed) \<lparr>enabled = True, device = ''hdmi'', stereo_pair = 3\<rparr>
        \<lparr>audio_out_config_file = Missing, systemctl_calls = []\<rparr> =
      (Inl (HTTPException 400 detail), \<lparr>audio_out_config_file = Missing, systemctl_calls = []\<rparr>))"
  using
    invalid_request_rejected_before_persistence
      [of "\<lparr>enabled = True, device = ''spdif'', stereo_pair = 1\<rparr>" Missing 0 True
          "\<lambda>c. Completed" "\<lparr>audio_out_config_file = Missing, systemctl_calls = []\<rparr>"]
    invalid_request_rejected_before_persistence
      [of "\<lparr>enabled = True, device = ''hdmi'', stereo_pair = 3\<rparr>"
          "Content (''[inferno]'' @ [nl] @ ''rx_channels = 4'' @ [nl])" 4 True "\<lambda>c. Completed"
          "\<lparr>audio_out_config_file = Missing, systemctl_calls = []\<rparr>"]
    four_rx_channels
  by simp

text \<open>What a request that passes validation leaves behind, when the file can be written.\<close>

lemma accepted_request_persists:
  assumes "device req \<in> {''hdmi'', ''headphones'', ''auto''}"
    and "Option.bind (load_config config_file) main_rx_channels = Some rx"
    and "1 \<le> stereo_pair req" and "stereo_pair req \<le> (rx + 1) div 2"
  shows "snd (set_audio_output config_file True run req w) =
           \<lparr>audio_out_config_file =
              Content (routing_text \<lparr>enabled = enabled req, device = device req,
                                     stereo_pair = stereo_pair req, rx_channels_key = Some rx\<rparr>),
            systemctl_calls = systemctl_calls w @
              [[''systemctl'', if enabled req then ''restart'' else ''stop'',
                ''inferno-audio-out.service'']]\<rparr>"
  using assms
  by (cases "run [''systemctl'', if enabled req then ''restart'' else ''stop'',
                ''inferno-audio-out.service'']")
     (auto simp: set_audio_output_def write_audio_output_config_def Let_def
           split: Option.bind_splits)


subsection \<open>Integers and their decimal text\<close>

lemma digit_char_props: "is_digit (digit_char n) \<and> digit_val (digit_char n) = n mod 10"
proof -
  have "n mod 10 = 0 \<or> n mod 10 = 1 \<or> n mod 10 = 2 \<or> n mod 10 = 3 \<or> n mod 10 = 4 \<or>
        n mod 10 = 5 \<or> n mod 10 = 6 \<or> n mod 10 = 7 \<or> n mod 10 = 8 \<or> n mod 10 = 9"
    by presburger
  then show ?thesis
    by (auto simp: digit_char_def is_digit_def digit_val_def)
qed

lemma dec_value_snoc: "dec_value (ds @ [c]) = 10 * dec_value ds + digit_val c"
  by (simp add: dec_value_def)

lemma str_digits_props:
  "0 \<le> n \<Longrightarrow> str_digits n \<noteq> [] \<and> list_all is_digit (str_digits n) \<and> dec_value (str_digits n) = n"
proof (induction n rule: str_digits.induct)
  case (1 n)
  show ?case
  proof (cases "n < 10")
    case True
    with "1.prems" have "n mod 10 = n" by simp
    with True show ?thesis
      using digit_char_props [of n] by (simp add: str_digits.simps [of n] dec_value_def)
  next
    case False
    with "1.prems" have "0 \<le> n div 10" by simp
    with False "1.IH" have ih: "list_all is_digit (str_digits (n div 10))"
      "dec_value (str_digits (n div 10)) = n div 10" by simp_all
    with False show ?thesis
      using digit_char_props [of "n mod 10"]
      by (simp add: str_digits.simps [of n] dec_value_snoc)
  qed
qed

lemma digit_not_special:
  "is_digit c \<Longrightarrow>
     \<not> is_space c \<and> c \<noteq> CHR ''-'' \<and> c \<noteq> CHR ''+'' \<and> c \<noteq> CHR ''_'' \<and> c \<noteq> CHR ''='' \<and>
     c \<noteq> dq \<and> c \<noteq> nl \<and> c \<noteq> cr"
  by (auto simp: is_digit_def is_space_def dq_def nl_def cr_def)

lemma int_body_digits: "ds \<noteq> [] \<Longrightarrow> list_all is_digit ds \<Longrightarrow> int_body ds"
proof (induction ds rule: int_body.induct)
  case (3 c d r)
  then have "d \<noteq> CHR ''_''" using digit_not_special [of d] by simp
  with 3 show ?case by simp
qed simp_all

lemma filter_underscore_digits:
  "list_all is_digit ds \<Longrightarrow> filter (\<lambda>c. c \<noteq> CHR ''_'') ds = ds"
  using digit_not_special by (induction ds) auto

lemma dropWhile_none: "\<forall>c \<in> set xs. \<not> P c \<Longrightarrow> dropWhile P xs = xs"
  by (cases xs) simp_all

lemma strip_where_none: "\<forall>c \<in> set s. \<not> P c \<Longrightarrow> strip_where P s = s"
  by (simp add: strip_where_def dropWhile_none)

lemma digits_no_space:
  "list_all is_digit ds \<Longrightarrow>
     \<forall>c \<in> set ds. \<not> is_space c \<and> c \<noteq> CHR ''-'' \<and> c \<noteq> CHR ''+'' \<and> c \<noteq> CHR ''_''"
  using digit_not_special by (auto simp: list_all_iff)

lemma py_int_str_int: "py_int (str_int n) = Some n"
proof (cases "n < 0")
  case True
  then have props: "str_digits (- n) \<noteq> []" "list_all is_digit (str_digits (- n))"
    "dec_value (str_digits (- n)) = - n"
    using str_digits_props [of "- n"] by simp_all
  have "strip (CHR ''-'' # str_digits (- n)) = CHR ''-'' # str_digits (- n)"
    unfolding strip_def using digits_no_space [OF props(2)]
    by (intro strip_where_none) (auto simp: is_space_def)
  with True props show ?thesis
    by (simp add: py_int_def str_int_def int_body_digits filter_underscore_digits)
next
  case False
  then have props: "str_digits n \<noteq> []" "list_all is_digit (str_digits n)"
    "dec_value (str_digits n) = n"
    using str_digits_props [of n] by simp_all
  have s: "strip (str_digits n) = str_digits n"
    unfolding strip_def using digits_no_space [OF props(2)]
    by (intro strip_where_none) auto
  from props(1) obtain c cs where cs: "str_digits n = c # cs" by (cases "str_digits n") auto
  with digits_no_space [OF props(2)] have "c \<noteq> CHR ''-''" "c \<noteq> CHR ''+''" "c \<noteq> CHR ''_''"
    by auto
  with False props s cs show ?thesis
    by (simp add: py_int_def str_int_def filter_underscore_digits Let_def
        int_body_digits [of "c # cs"])
qed

subsection \<open>Reading back what was written\<close>

lemma space_facts [simp]: "is_space nl" "\<not> is_space dq" "nl \<noteq> dq" "dq \<noteq> CHR ''=''" "CHR ''='' \<noteq> dq"
  by (simp_all add: is_space_def nl_def dq_def)

lemma strip_kv_line:
  assumes "key \<noteq> []" and "\<not> is_space (hd key)"
  shows "strip (kv_text key v @ [nl]) = kv_text key v"
proof -
  from assms obtain k ks where key: "key = k # ks" and k: "\<not> is_space k"
    by (cases key) auto
  then show ?thesis
    by (simp add: strip_def strip_where_def kv_text_def)
qed

lemma py_split_no_sep: "sep \<notin> set r \<Longrightarrow> py_split sep r = [r]"
  by (induction r) auto

lemma py_split_key: "sep \<notin> set k \<Longrightarrow> py_split sep (k @ sep # r) = k # py_split sep r"
  by (induction k) auto

lemma strip_chars_quoted: "dq \<notin> set v \<Longrightarrow> strip_chars [dq] (dq # v @ [dq]) = v"
proof (cases v)
  case Nil
  then show ?thesis by (simp add: strip_chars_def strip_where_def)
next
  case (Cons a w)
  assume "dq \<notin> set v"
  then have none: "\<forall>c \<in> set (rev v). \<not> c \<in> set [dq]" by auto
  have "dropWhile (\<lambda>c. c \<in> set [dq]) (rev v) = rev v"
    using none by (rule dropWhile_none)
  with Cons \<open>dq \<notin> set v\<close> show ?thesis
    by (auto simp: strip_chars_def strip_where_def)
qed

lemma field_value_kv:
  assumes "CHR ''='' \<notin> set key" and "CHR ''='' \<notin> set v" and "dq \<notin> set v"
  shows "field_value (kv_text key v) = Some v"
proof -
  have "kv_text key v = key @ CHR ''='' # (dq # v @ [dq])" by (simp add: kv_text_def)
  moreover have "py_split (CHR ''='') (dq # v @ [dq]) = [dq # v @ [dq]]"
    using assms by (intro py_split_no_sep) simp
  ultimately have "py_split (CHR ''='') (kv_text key v) = [key, dq # v @ [dq]]"
    using assms by (simp add: py_split_key)
  with assms show ?thesis by (simp add: field_value_def strip_chars_quoted)
qed

lemma startswith_kv:
  "CHR ''='' \<notin> set key \<Longrightarrow> CHR ''='' \<notin> set key' \<Longrightarrow>
     startswith (kv_text key v) (key' @ ''='') = (key = key')"
proof (induction key arbitrary: key')
  case Nil
  then show ?case by (cases key') (auto simp: kv_text_def)
next
  case (Cons a key)
  then have ih: "\<And>k. CHR ''='' \<notin> set k \<Longrightarrow> startswith (kv_text key v) (k @ ''='') = (key = k)"
    by simp
  from Cons.prems show ?case
  proof (cases key')
    case Nil
    with Cons.prems show ?thesis by (auto simp: kv_text_def)
  next
    case (Cons b k)
    with Cons.prems ih [of k] show ?thesis by (auto simp: kv_text_def)
  qed
qed

lemma universal_newlines_id: "cr \<notin> set s \<Longrightarrow> universal_newlines s = s"
  by (induction s rule: universal_newlines.induct) auto

lemma split_lines_line: "nl \<notin> set a \<Longrightarrow> split_lines (a @ nl # rest) = (a @ [nl]) # split_lines rest"
  by (induction a) auto

lemma split_lines_concat:
  "\<forall>l \<in> set ls. nl \<notin> set l \<Longrightarrow> split_lines (concat (map (\<lambda>l. l @ [nl]) ls)) = map (\<lambda>l. l @ [nl]) ls"
  by (induction ls) (simp_all add: split_lines_line)

lemma readlines_concat:
  assumes "\<forall>l \<in> set ls. nl \<notin> set l \<and> cr \<notin> set l"
  shows "readlines (concat (map (\<lambda>l. l @ [nl]) ls)) = map (\<lambda>l. l @ [nl]) ls"
proof -
  have "cr \<notin> set (concat (map (\<lambda>l. l @ [nl]) ls))"
    using assms by (auto simp: nl_def cr_def)
  then show ?thesis using assms by (simp add: readlines_def universal_newlines_id split_lines_concat)
qed


lemma startswith_kv_literal:
  assumes "CHR ''='' \<notin> set key" and "p \<noteq> []" and "last p = CHR ''=''"
    and "CHR ''='' \<notin> set (butlast p)"
  shows "startswith (kv_text key v) p = (key = butlast p)"
proof -
  from assms have "p = butlast p @ ''=''" by (metis append_butlast_last_id)
  then show ?thesis using startswith_kv [of key "butlast p" v] assms by metis
qed

lemma comment_lines:
  "routing_line (''# Hardware audio output configuration'' @ [nl]) c = Next c"
  "routing_line (''# This file can be modified via API or manually'' @ [nl]) c = Next c"
  by (simp_all add: routing_line_def strip_def strip_where_def is_space_def nl_def)

lemma routing_line_enabled:
  assumes "CHR ''='' \<notin> set v" and "dq \<notin> set v"
  shows "routing_line (kv_text ''ENABLED'' v @ [nl]) c = Next (c\<lparr>enabled := (lower v = ''true'')\<rparr>)"
  using assms
  by (simp add: routing_line_def Let_def strip_kv_line startswith_kv_literal text_field_def
      field_value_kv is_space_def)

lemma routing_line_device:
  assumes "CHR ''='' \<notin> set v" and "dq \<notin> set v"
  shows "routing_line (kv_text ''DEVICE'' v @ [nl]) c = Next (c\<lparr>device := v\<rparr>)"
  using assms
  by (simp add: routing_line_def Let_def strip_kv_line startswith_kv_literal text_field_def
      field_value_kv is_space_def)

lemma str_int_chars:
  "CHR ''='' \<notin> set (str_int n) \<and> dq \<notin> set (str_int n) \<and> nl \<notin> set (str_int n) \<and>
   cr \<notin> set (str_int n)"
proof -
  have "\<And>k. 0 \<le> k \<Longrightarrow> \<forall>c \<in> set (str_digits k). is_digit c"
    using str_digits_props by (simp add: list_all_iff)
  then have "\<And>k. 0 \<le> k \<Longrightarrow>
      CHR ''='' \<notin> set (str_digits k) \<and> dq \<notin> set (str_digits k) \<and> nl \<notin> set (str_digits k) \<and>
      cr \<notin> set (str_digits k)"
    using digit_not_special by blast
  then show ?thesis by (cases "n < 0") (simp_all add: str_int_def dq_def nl_def cr_def)
qed

lemma routing_line_int:
  "routing_line (kv_text ''STEREO_PAIR'' (str_int n) @ [nl]) c = Next (c\<lparr>stereo_pair := n\<rparr>)"
  "routing_line (kv_text ''CHANNEL_L'' (str_int n) @ [nl]) c = Next (c\<lparr>channel_l := n\<rparr>)"
  "routing_line (kv_text ''CHANNEL_R'' (str_int n) @ [nl]) c = Next (c\<lparr>channel_r := n\<rparr>)"
  "routing_line (kv_text ''RX_CHANNELS'' (str_int n) @ [nl]) c = Next (c\<lparr>config_rx_channels := n\<rparr>)"
  using str_int_chars [of n]
  by (simp_all add: routing_line_def Let_def strip_kv_line startswith_kv_literal int_field_def
      field_value_kv py_int_str_int is_space_def)


lemma routing_text_lines:
  "routing_text config =
     concat (map (\<lambda>l. l @ [nl])
       [''# Hardware audio output configuration'',
        ''# This file can be modified via API or manually'',
        kv_text ''ENABLED'' (str_bool_lower (enabled config)),
        kv_text ''DEVICE'' (device config),
        kv_text ''STEREO_PAIR'' (str_int (stereo_pair config)),
        kv_text ''CHANNEL_L'' (str_int ((stereo_pair config - 1) * 2)),
        kv_text ''CHANNEL_R'' (str_int ((stereo_pair config - 1) * 2 + 1)),
        kv_text ''RX_CHANNELS''
          (str_int (case rx_channels_key config of None \<Rightarrow> 2 | Some n \<Rightarrow> n))])"
  by (simp add: routing_text_def kv_line_def Let_def)

lemma str_bool_lower_cases: "str_bool_lower b = (if b then ''true'' else ''false'')"
  by (simp add: str_bool_lower_def lower_def lower_char_def)

lemma read_written_text:
  assumes "CHR ''='' \<notin> set (device config)" and "dq \<notin> set (device config)"
    and "nl \<notin> set (device config)" and "cr \<notin> set (device config)"
  shows "read_audio_output_config (Content (routing_text config)) =
           \<lparr>enabled = enabled config, device = device config, stereo_pair = stereo_pair config,
            channel_l = (stereo_pair config - 1) * 2,
            channel_r = (stereo_pair config - 1) * 2 + 1,
            config_rx_channels = (case rx_channels_key config of None \<Rightarrow> 2 | Some n \<Rightarrow> n)\<rparr>"
proof -
  let ?ls = "[''# Hardware audio output configuration'',
        ''# This file can be modified via API or manually'',
        kv_text ''ENABLED'' (str_bool_lower (enabled config)),
        kv_text ''DEVICE'' (device config),
        kv_text ''STEREO_PAIR'' (str_int (stereo_pair config)),
        kv_text ''CHANNEL_L'' (str_int ((stereo_pair config - 1) * 2)),
        kv_text ''CHANNEL_R'' (str_int ((stereo_pair config - 1) * 2 + 1)),
        kv_text ''RX_CHANNELS''
          (str_int (case rx_channels_key config of None \<Rightarrow> 2 | Some n \<Rightarrow> n))]"
  have bool_chars: "CHR ''='' \<notin> set (str_bool_lower (enabled config))"
    "dq \<notin> set (str_bool_lower (enabled config))"
    "nl \<notin> set (str_bool_lower (enabled config))" "cr \<notin> set (str_bool_lower (enabled config))"
    by (simp_all add: str_bool_lower_cases dq_def nl_def cr_def)
  have "\<forall>l \<in> set ?ls. nl \<notin> set l \<and> cr \<notin> set l"
    using assms bool_chars str_int_chars
    by (simp add: kv_text_def nl_def cr_def dq_def)
  then have lines: "readlines (routing_text config) = map (\<lambda>l. l @ [nl]) ?ls"
    unfolding routing_text_lines by (rule readlines_concat)
  have enabled_back: "(lower (str_bool_lower (enabled config)) = ''true'') = enabled config"
    by (simp add: str_bool_lower_cases lower_def lower_char_def)
  show ?thesis
    using assms bool_chars enabled_back
    by (simp add: read_audio_output_config_def lines comment_lines [simplified] routing_line_enabled
        routing_line_device routing_line_int routing_default_def)
qed

text \<open>
  Claim C6. Take a routing configuration whose device is \<^verbatim>\<open>hdmi\<close>, \<^verbatim>\<open>headphones\<close>
  or \<^verbatim>\<open>auto\<close> and whose stereo pair is at least 1, with or without a number of receive
  channels. When the file can be written, \<^verbatim>\<open>write_audio_output_config\<close> returns true,
  and \<^verbatim>\<open>read_audio_output_config\<close> on the file it leaves returns the left channel
  \<open>2 * (stereo_pair - 1)\<close>, the right channel one above it, and the enabled flag and the
  device of the configuration written.
\<close>

theorem routing_config_round_trip:
  assumes "device config \<in> {''hdmi'', ''headphones'', ''auto''}" and "1 \<le> stereo_pair config"
  shows "fst (write_audio_output_config True config old) \<and>
         channel_l (read_audio_output_config (snd (write_audio_output_config True config old))) =
           2 * (stereo_pair config - 1) \<and>
         channel_r (read_audio_output_config (snd (write_audio_output_config True config old))) =
           channel_l (read_audio_output_config (snd (write_audio_output_config True config old))) + 1 \<and>
         enabled (read_audio_output_config (snd (write_audio_output_config True config old))) =
           enabled config \<and>
         device (read_audio_output_config (snd (write_audio_output_config True config old))) =
           device config"
proof -
  from assms(1) have "CHR ''='' \<notin> set (device config)" "dq \<notin> set (device config)"
    "nl \<notin> set (device config)" "cr \<notin> set (device config)"
    by (auto simp: dq_def nl_def cr_def)
  then show ?thesis
    by (simp add: write_audio_output_config_def read_written_text)
qed

text \<open>The third stereo pair on \<^verbatim>\<open>hdmi\<close>: channels 4 and 5.\<close>

theorem routing_config_round_trip_pair_3:
  "''hdmi'' \<in> {''hdmi'', ''headphones'', ''auto''} \<and> (1::int) \<le> 3 \<and>
   channel_l (read_audio_output_config
     (snd (write_audio_output_config True
             \<lparr>enabled = True, device = ''hdmi'', stereo_pair = 3, rx_channels_key = Some 8\<rparr> Missing))) = 4 \<and>
   channel_r (read_audio_output_config
     (snd (write_audio_output_config True
             \<lparr>enabled = True, device = ''hdmi'', stereo_pair = 3, rx_channels_key = Some 8\<rparr> Missing))) = 5 \<and>
   enabled (read_audio_output_config
     (snd (write_audio_output_config True
             \<lparr>enabled = True, device = ''hdmi'', stereo_pair = 3, rx_channels_key = Some 8\<rparr> Missing))) \<and>
   device (read_audio_output_config
     (snd (write_audio_output_config True
             \<lparr>enabled = True, device = ''hdmi'', stereo_pair = 3, rx_channels_key = Some 8\<rparr> Missing))) = ''hdmi''"
  using routing_config_round_trip
      [of "\<lparr>enabled = True, device = ''hdmi'', stereo_pair = 3, rx_channels_key = Some 8\<rparr>" Missing]
  by simp


section \<open>Properties of the metrics mirror\<close>

subsection \<open>The stream parser never raises\<close>



















subsection \<open>What the registry holds after a call\<close>









end
